theory Spec2Isabelle
  imports Main "HOL-Library.Word"
begin

section \<open>Data model\<close>

text \<open>
  The package wraps two Kafka client libraries (kafka-go, with consumer-group
  generations, and sarama, with consumer-group sessions) and a sarama producer.
  The libraries, the logger, the message codec and the host's processor function are
  outside the package: they appear here as an explicit environment (\<open>world\<close>,
  \<open>broker\<close>) that every call reads and returns updated, with the replies of the broker
  given by functions of the number of calls made so far.
\<close>

type_synonym bytes = "8 word list"

text \<open>
  Go \<open>error\<close> values. The package-level error values and error constructors
  (\<open>errTopicConfMissing\<close>, \<open>errCommit(e)\<close>, ...) are declared in a file of the
  package that is not part of the sources at hand; they are kept as distinct
  constructors under the names the code uses. \<open>External\<close> is an error made outside
  the package (broker, processor function, codec).
\<close>

datatype error =
    External string
  | errTopicConfMissing
  | errInvalidProducer
  | errMessageType
  | errCodecNil string
  | errMsgRead error
  | errSetOffset error
  | errCommit error
  | errEvent string string "32 word" "64 word"
  | errProduceFail string error

datatype logCat =
    LogCatKafkaConsume
  | LogCatKafkaCommitOffset
  | LogCatKafkaProcessMessage
  | LogCatKafkaProduce
  | LogCatKafkaEncode
  | LogCatKafkaProducerInit

text \<open>What \<open>infoEvent(text, topic, partition, offset)\<close> describes.\<close>

datatype info = infoEvent string string "32 word" "64 word"

datatype logEntry =
    LogError logCat error
  | LogInfo logCat info

text \<open>
  A record as the client libraries hand it to the package (\<open>kafka.Message\<close>,
  \<open>sarama.ConsumerMessage\<close>): the fields the package reads. The partition is an
  \<open>int\<close> in kafka-go and an \<open>int32\<close> in sarama.
\<close>

record rawMessage =
  Topic :: string
  Partition :: int
  Offset :: "64 word"
  Key :: bytes
  Value :: bytes

text \<open>
  Modelled from the spec: the package's message type and its constructors
  \<open>newKafkaGoMessage\<close> and \<open>newSaramaMessage\<close> are not in the sources at hand. The
  spec's Message is built once per received record from the record and the topic's
  codec, and is read-only to the processor.
\<close>

record 'c message =
  received :: rawMessage
  codec :: "'c option"

definition newKafkaGoMessage :: "rawMessage \<Rightarrow> 'c option \<Rightarrow> 'c message" where
  "newKafkaGoMessage msg cd = \<lparr>received = msg, codec = cd\<rparr>"

definition newSaramaMessage :: "rawMessage \<Rightarrow> 'c option \<Rightarrow> 'c message" where
  "newSaramaMessage msg cd = \<lparr>received = msg, codec = cd\<rparr>"

text \<open>
  Modelled from the spec: \<open>failedMessage\<close> and \<open>newFailedMessage\<close> are not in the
  sources at hand. The spec's FailedMessage holds the original message, the
  destination topic and the causal error.
\<close>

record 'c failedMessage =
  original :: "'c message"
  destination :: string
  cause :: error

definition newFailedMessage :: "'c message \<Rightarrow> string \<Rightarrow> error \<Rightarrow> 'c failedMessage" where
  "newFailedMessage m topic e = \<lparr>original = m, destination = topic, cause = e\<rparr>"

text \<open>
  \<open>TopicConfig\<close>, with the fields the code reads. A Go func value and an interface
  value can be nil: \<open>None\<close>. The processor function gets the dependencies and the
  message, and may change the application's state \<open>'s\<close>.
\<close>

record ('c, 'd, 's) TopicConfig =
  Name :: string
  messageCodec :: "'c option"
  MessageProcessor :: "('d \<Rightarrow> 'c message \<Rightarrow> 's \<Rightarrow> error option \<times> 's) option"
  FailedProcessingTopic :: string

text \<open>Reading a Go map at a missing key gives the zero value of the element type.\<close>

definition zeroTopicConfig :: "('c, 'd, 's) TopicConfig" where
  "zeroTopicConfig =
     \<lparr>Name = [], messageCodec = None, MessageProcessor = None, FailedProcessingTopic = []\<rparr>"

definition lookupConf ::
  "(string \<rightharpoonup> ('c, 'd, 's) TopicConfig) \<Rightarrow> string \<Rightarrow> ('c, 'd, 's) TopicConfig" where
  "lookupConf m topic = (case m topic of None \<Rightarrow> zeroTopicConfig | Some conf \<Rightarrow> conf)"

subsection \<open>Channels\<close>

text \<open>
  A Go channel as one goroutine sees it: the capacity, the buffered values, the number
  of goroutines blocked in a receive, and the values handed to such receivers.
  \<open>trySend\<close> is the statement \<open>select { case ch <- x: ... default: ... }\<close>: the send
  is taken when it can proceed at once (a receiver is waiting, or the buffer has
  room), the default branch otherwise. It never blocks.
\<close>

record 'a chan =
  capacity :: nat
  buffer :: "'a list"
  receivers :: nat
  handed :: "'a list"

definition canProceed :: "'a chan \<Rightarrow> bool" where
  "canProceed ch = (0 < receivers ch \<or> length (buffer ch) < capacity ch)"

definition trySend :: "'a chan \<Rightarrow> 'a \<Rightarrow> bool \<times> 'a chan" where
  "trySend ch x =
     (if 0 < receivers ch
      then (True, ch\<lparr>receivers := receivers ch - 1, handed := handed ch @ [x]\<rparr>)
      else if length (buffer ch) < capacity ch
      then (True, ch\<lparr>buffer := buffer ch @ [x]\<rparr>)
      else (False, ch))"

text \<open>Every value the channel has accepted, in the order of acceptance per route.\<close>

definition accepted :: "'a chan \<Rightarrow> 'a list" where
  "accepted ch = handed ch @ buffer ch"

subsection \<open>The environment of a partition loop\<close>

text \<open>
  \<open>logs\<close>: the logger's output. \<open>app\<close>: the application state the processor works
  on. \<open>invocations\<close>: the processor calls made, with their results.
  \<open>failMessages\<close>: the consumer's channel to the failed-message handler.
  \<open>records\<close>, \<open>readPos\<close>, \<open>readErr\<close>, \<open>setOffsetReply\<close>: the kafka-go reader of
  this partition (the partition's log by offset, the reader's position, the error
  \<open>ReadMessage\<close> returns when the context ends, what \<open>SetOffset\<close> answers).
  \<open>commitReply\<close>, \<open>commitCalls\<close>, \<open>committed\<close>: the generation's \<open>CommitOffsets\<close>
  (the reply to the n-th call, the calls made, the offsets the group holds).
  \<open>marked\<close>: the messages marked on the sarama session.
\<close>

record ('c, 's) world =
  logs :: "logEntry list"
  app :: 's
  invocations :: "('c message \<times> error option) list"
  failMessages :: "'c failedMessage chan"
  records :: "64 word \<Rightarrow> (bytes \<times> bytes) option"
  readPos :: "64 word"
  readErr :: error
  setOffsetReply :: "error option"
  commitReply :: "nat \<Rightarrow> error option"
  commitCalls :: "(string \<times> int \<times> 64 word) list"
  committed :: "string \<times> int \<rightharpoonup> 64 word"
  marked :: "rawMessage list"

definition lgError :: "logCat \<Rightarrow> error \<Rightarrow> ('c, 's) world \<Rightarrow> ('c, 's) world" where
  "lgError cat e w = w\<lparr>logs := logs w @ [LogError cat e]\<rparr>"

definition lgInfo :: "logCat \<Rightarrow> info \<Rightarrow> ('c, 's) world \<Rightarrow> ('c, 's) world" where
  "lgInfo cat i w = w\<lparr>logs := logs w @ [LogInfo cat i]\<rparr>"

text \<open>
  \<open>reader.ReadMessage(ctx)\<close> blocks until the record at the reader's position is
  there or the context ends. The model delivers the records of the partition's log
  and, where the log has none, the context's error.
\<close>

definition ReadMessage ::
  "string \<Rightarrow> int \<Rightarrow> ('c, 's) world \<Rightarrow> (error + rawMessage) \<times> ('c, 's) world" where
  "ReadMessage topic part w =
     (case records w (readPos w) of
        None \<Rightarrow> (Inl (readErr w), w)
      | Some (k, v) \<Rightarrow>
          (Inr \<lparr>Topic = topic, Partition = part, Offset = readPos w, Key = k, Value = v\<rparr>,
           w\<lparr>readPos := readPos w + 1\<rparr>))"

text \<open>\<open>reader.SetOffset(offset)\<close>: the next read is at \<open>offset\<close>, unless it fails.\<close>

definition SetOffset :: "64 word \<Rightarrow> ('c, 's) world \<Rightarrow> error option \<times> ('c, 's) world" where
  "SetOffset offset w =
     (case setOffsetReply w of
        None \<Rightarrow> (None, w\<lparr>readPos := offset\<rparr>)
      | Some e \<Rightarrow> (Some e, w))"

text \<open>\<open>c.gen.CommitOffsets(map[string]map[int]int64{topic: {partition: offset}})\<close>\<close>

definition CommitOffsets ::
  "string \<Rightarrow> int \<Rightarrow> 64 word \<Rightarrow> ('c, 's) world \<Rightarrow> error option \<times> ('c, 's) world" where
  "CommitOffsets topic part offset w =
     (let w' = w\<lparr>commitCalls := commitCalls w @ [(topic, part, offset)]\<rparr>
      in case commitReply w (length (commitCalls w)) of
           None \<Rightarrow> (None, w'\<lparr>committed := (committed w)((topic, part) \<mapsto> offset)\<rparr>)
         | Some e \<Rightarrow> (Some e, w'))"

section \<open>The generation-based consumer (kafka-go)\<close>

record ('c, 'd, 's) kafkagoConsumer =
  topicNames :: "string list"
  topicConfig :: "string \<rightharpoonup> ('c, 'd, 's) TopicConfig"
  procDependencies :: 'd

definition commitOffset ::
  "string \<Rightarrow> int \<Rightarrow> 64 word \<Rightarrow> ('c, 's) world \<Rightarrow> ('c, 's) world" where
  "commitOffset topic part offset w =
     (case CommitOffsets topic part offset w of
        (None, w1) \<Rightarrow> w1
      | (Some e, w1) \<Rightarrow>
          (case CommitOffsets topic part offset
                  (lgError LogCatKafkaCommitOffset (errCommit e) w1) of
             (None, w2) \<Rightarrow> w2
           | (Some e2, w2) \<Rightarrow> lgError LogCatKafkaCommitOffset (errCommit e2) w2))"

text \<open>How one pass through the body of a loop ends.\<close>

datatype flow = Continue | Return | Panic

text \<open>How a loop stands after what it was given: still in the loop, returned, or panicked.\<close>

datatype 'r outcome = StillRunning | Returned 'r | Panicked

text \<open>
  The statement \<open>select { case c.failMessages <- fm: lg.Info(...) default: lg.Error(...) }\<close>,
  which \<open>consumeTopic\<close> and \<open>ConsumeClaim\<close> both contain, and the block of
  \<open>consumeTopic\<close> under \<open>if e != nil\<close>: that statement when the topic has a
  failed-processing topic, \<open>reader.SetOffset(offset)\<close>, and the commit of \<open>offset - 1\<close>.
\<close>

definition forwardFailed ::
  "rawMessage \<Rightarrow> 'c failedMessage \<Rightarrow> ('c, 's) world \<Rightarrow> ('c, 's) world" where
  "forwardFailed msg fm w =
     (case trySend (failMessages w) fm of
        (True, ch) \<Rightarrow>
          lgInfo LogCatKafkaConsume
            (infoEvent ''failed message sent to fail handler''
               (Topic msg) (word_of_int (Partition msg)) (Offset msg))
            (w\<lparr>failMessages := ch\<rparr>)
      | (False, ch) \<Rightarrow>
          lgError LogCatKafkaConsume
            (errEvent ''failed message not sent to fail handler''
               (Topic msg) (word_of_int (Partition msg)) (Offset msg))
            w)"

definition processingFailed ::
  "('c, 'd, 's) TopicConfig \<Rightarrow> string \<Rightarrow> int \<Rightarrow> rawMessage \<Rightarrow> 'c message \<Rightarrow> error \<Rightarrow>
   ('c, 's) world \<Rightarrow> ('c, 's) world" where
  "processingFailed conf topic part msg m e w =
     (let offset = Offset msg;
          w1 = (if FailedProcessingTopic conf \<noteq> []
                then forwardFailed msg (newFailedMessage m (FailedProcessingTopic conf) e) w
                else w);
          w2 = (case SetOffset offset w1 of
                  (None, w') \<Rightarrow> w'
                | (Some e', w') \<Rightarrow> lgError LogCatKafkaCommitOffset (errSetOffset e') w')
      in commitOffset topic part (offset - 1) w2)"

text \<open>
  One pass through the \<open>for\<close> body of the partition loop in \<open>consumeTopic\<close>. A read
  error ends the loop; calling a nil \<open>MessageProcessor\<close> panics. The commit of
  \<open>offset\<close> at the end of the body is reached after the failure block as well: the
  block does not end in \<open>continue\<close>.
\<close>

definition consumeTopic_body ::
  "('c, 'd, 's) kafkagoConsumer \<Rightarrow> string \<Rightarrow> int \<Rightarrow> ('c, 's) world \<Rightarrow> flow \<times> ('c, 's) world" where
  "consumeTopic_body c topic part w =
     (let conf = lookupConf (topicConfig c) topic
      in case ReadMessage topic part w of
           (Inl e, w1) \<Rightarrow> (Return, lgError LogCatKafkaConsume (errMsgRead e) w1)
         | (Inr msg, w1) \<Rightarrow>
             (let offset = Offset msg;
                  m = newKafkaGoMessage msg (messageCodec conf)
              in case MessageProcessor conf of
                   None \<Rightarrow> (Panic, w1)
                 | Some process \<Rightarrow>
                     (let (e, a) = process (procDependencies c) m (app w1);
                          w2 = w1\<lparr>app := a, invocations := invocations w1 @ [(m, e)]\<rparr>;
                          w3 = (case e of
                                  None \<Rightarrow> w2
                                | Some err \<Rightarrow> processingFailed conf topic part msg m err w2)
                      in (Continue, commitOffset topic part offset w3))))"

text \<open>
  The loop itself. It ends only on a read error (or a panic), and a record whose
  processing keeps failing is read again and again, so the loop is run for a number
  of passes: \<open>StillRunning\<close> says that it is in the loop after that many.
\<close>

fun consumeTopic_loop ::
  "('c, 'd, 's) kafkagoConsumer \<Rightarrow> string \<Rightarrow> int \<Rightarrow> nat \<Rightarrow> ('c, 's) world \<Rightarrow>
   unit outcome \<times> ('c, 's) world" where
  "consumeTopic_loop c topic part 0 w = (StillRunning, w)"
| "consumeTopic_loop c topic part (Suc n) w =
     (case consumeTopic_body c topic part w of
        (Continue, w') \<Rightarrow> consumeTopic_loop c topic part n w'
      | (Return, w') \<Rightarrow> (Returned (), w')
      | (Panic, w') \<Rightarrow> (Panicked, w'))"

text \<open>
  The function \<open>consumeTopic\<close> hands to \<open>c.gen.Start\<close> for one assignment: the reader
  is positioned at the assignment's offset, then the loop runs.
\<close>

definition partitionLoop ::
  "('c, 'd, 's) kafkagoConsumer \<Rightarrow> string \<Rightarrow> int \<Rightarrow> 64 word \<Rightarrow> nat \<Rightarrow> ('c, 's) world \<Rightarrow>
   unit outcome \<times> ('c, 's) world" where
  "partitionLoop c topic part offset n w =
     consumeTopic_loop c topic part n (snd (SetOffset offset w))"

section \<open>The session-based consumer (sarama)\<close>

text \<open>
  The fields \<open>ConsumeClaim\<close> reads. (\<open>procDependencies\<close> is \<open>sessionDependencies\<close>
  here, a record field name being taken once.)
\<close>

record ('c, 'd, 's) saramaConsumer =
  topicConf :: "string \<rightharpoonup> ('c, 'd, 's) TopicConfig"
  sessionDependencies :: 'd

text \<open>
  What the \<open>select\<close> of \<open>ConsumeClaim\<close> receives: a message of the claim, or the end
  of the session's context.
\<close>

datatype claimEvent = Claimed rawMessage | Done

text \<open>The \<open>case msg := <-claim.Messages()\<close> branch of the \<open>select\<close>.\<close>

definition ConsumeClaim_message ::
  "('c, 'd, 's) saramaConsumer \<Rightarrow> rawMessage \<Rightarrow> ('c, 's) world \<Rightarrow> flow \<times> ('c, 's) world" where
  "ConsumeClaim_message c msg w =
     (let conf = lookupConf (topicConf c) (Topic msg)
      in if Name conf = [] \<or> messageCodec conf = None
         then (Continue, lgError LogCatKafkaConsume errTopicConfMissing w)
         else
           (let m = newSaramaMessage msg (messageCodec conf);
                w1 = lgInfo LogCatKafkaConsume
                       (infoEvent ''message claimed''
                          (Topic msg) (word_of_int (Partition msg)) (Offset msg)) w
            in case MessageProcessor conf of
                 None \<Rightarrow> (Panic, w1)
               | Some process \<Rightarrow>
                   (let (e, a) = process (sessionDependencies c) m (app w1);
                        w2 = w1\<lparr>app := a, invocations := invocations w1 @ [(m, e)]\<rparr>
                    in case e of
                         Some err \<Rightarrow>
                           (let w3 = lgError LogCatKafkaProcessMessage err w2
                            in (Continue,
                                if FailedProcessingTopic conf \<noteq> []
                                then forwardFailed msg
                                       (newFailedMessage m (FailedProcessingTopic conf) err) w3
                                else w3))
                       | None \<Rightarrow> (Continue, w2\<lparr>marked := marked w2 @ [msg]\<rparr>))))"

fun ConsumeClaim ::
  "('c, 'd, 's) saramaConsumer \<Rightarrow> claimEvent list \<Rightarrow> ('c, 's) world \<Rightarrow>
   error option outcome \<times> ('c, 's) world" where
  "ConsumeClaim c [] w = (StillRunning, w)"
| "ConsumeClaim c (Done # evs) w = (Returned None, w)"
| "ConsumeClaim c (Claimed msg # evs) w =
     (case ConsumeClaim_message c msg w of
        (Panic, w') \<Rightarrow> (Panicked, w')
      | (_, w') \<Rightarrow> ConsumeClaim c evs w')"

section \<open>The producer (sarama)\<close>

datatype producerType = ProducerTypeSync | ProducerTypeAsync | OtherProducerType string

text \<open>
  The dynamic value of the field \<open>producer interface{}\<close>: nil, what
  \<open>sarama.NewSyncProducer\<close> returned, or what \<open>sarama.NewAsyncProducer\<close> returned.
  A sync producer has no \<open>Input\<close>, \<open>Successes\<close> or \<open>Errors\<close> method and an async
  producer no \<open>SendMessage\<close>, so each implements one of the two interfaces only.
\<close>

datatype producerValue = NilProducer | SyncProducer | AsyncProducer

record ('c, 'd, 's) saramaProducer =
  producer :: producerValue
  producerTopicConf :: "string \<rightharpoonup> ('c, 'd, 's) TopicConfig"
  initialized :: bool

text \<open>\<open>reflect.Kind\<close>\<close>

datatype reflectKind =
    InvalidKind | BoolKind | IntKind | Int8Kind | Int16Kind | Int32Kind | Int64Kind
  | UintKind | Uint8Kind | Uint16Kind | Uint32Kind | Uint64Kind | UintptrKind
  | Float32Kind | Float64Kind | Complex64Kind | Complex128Kind | ArrayKind | ChanKind
  | FuncKind | InterfaceKind | MapKind | PointerKind | SliceKind | StringKind
  | StructKind | UnsafePointerKind

text \<open>
  The payload \<open>msg interface{}\<close> by its dynamic type, as the type switch of
  \<open>getSaramaEncoder\<close> tells the types apart: \<open>string\<close>, \<open>[]byte\<close>, \<open>int32\<close>,
  \<open>int64\<close>, \<open>float32\<close>, \<open>float64\<close> (the floats by their IEEE bits), and any other
  type with its kind (nil has \<open>InvalidKind\<close>; a named type such as
  \<open>type ID int64\<close> is another type with \<open>Int64Kind\<close>).
\<close>

datatype 'v payload =
    StringValue string
  | BytesValue bytes
  | Int32Value "32 word"
  | Int64Value "64 word"
  | Float32Value "32 word"
  | Float64Value "64 word"
  | OtherValue reflectKind 'v

text \<open>
  \<open>sarama.Encoder\<close> values: sarama's \<open>StringEncoder\<close>, or an encoder \<open>'e\<close> of the
  package's own.
\<close>

datatype 'e encoder = StringEncoder string | PackageEncoder 'e

text \<open>
  What \<open>getSaramaEncoder\<close> calls and the sources at hand do not hold: \<open>fmt.Sprint\<close> at
  a float, and the package's \<open>newSaramaByteEncoder\<close> and \<open>newSaramaStructEncoder\<close>
  (which get the topic's name, the payload and the codec).
\<close>

record ('c, 'v, 'e) encoding =
  Sprint_float32 :: "32 word \<Rightarrow> string"
  Sprint_float64 :: "64 word \<Rightarrow> string"
  newSaramaByteEncoder :: "string \<Rightarrow> bytes \<Rightarrow> 'c \<Rightarrow> 'e"
  newSaramaStructEncoder :: "string \<Rightarrow> 'v \<Rightarrow> 'c \<Rightarrow> 'e encoder option \<times> error option"

text \<open>\<open>fmt.Sprint\<close> at a signed integer: the decimal digits, after a minus sign below zero.\<close>

definition digit :: "nat \<Rightarrow> char" where
  "digit d = ''0123456789'' ! d"

function decimal :: "nat \<Rightarrow> string" where
  "decimal n = (if n < 10 then [digit n] else decimal (n div 10) @ [digit (n mod 10)])"
  by pat_completeness auto
termination
  by (relation "measure id") auto

declare decimal.simps [simp del]

definition Sprint_int :: "int \<Rightarrow> string" where
  "Sprint_int i = (if i < 0 then CHR ''-'' # decimal (nat (- i)) else decimal (nat i))"




text \<open>\<open>sarama.ProducerMessage\<close>, with the fields \<open>produceMessage\<close> sets.\<close>

record 'e producerMessage =
  messageTopic :: string
  messageKey :: "'e encoder"
  messageValue :: "'e encoder option"

text \<open>
  The producer's environment: the logger's output, the reply to the n-th
  \<open>SendMessage\<close>, the messages passed to \<open>SendMessage\<close>, and the messages put on the
  async producer's \<open>Input()\<close> channel.
\<close>

record 'e broker =
  produceLogs :: "logEntry list"
  sendReply :: "nat \<Rightarrow> error option"
  sent :: "'e producerMessage list"
  input :: "'e producerMessage list"

definition lgProduceError :: "logCat \<Rightarrow> error \<Rightarrow> 'e broker \<Rightarrow> 'e broker" where
  "lgProduceError cat e b = b\<lparr>produceLogs := produceLogs b @ [LogError cat e]\<rparr>"

definition SendMessage :: "'e producerMessage \<Rightarrow> 'e broker \<Rightarrow> error option \<times> 'e broker" where
  "SendMessage m b = (sendReply b (length (sent b)), b\<lparr>sent := sent b @ [m]\<rparr>)"

text \<open>
  \<open>getSaramaEncoder\<close> returns the pair \<open>(s, e)\<close> of its named results. With a nil
  codec it logs \<open>errCodecNil\<close> and returns; \<open>e\<close> has not been assigned then.
\<close>

definition getSaramaEncoder ::
  "('c, 'v, 'e) encoding \<Rightarrow> ('c, 'd, 's) TopicConfig \<Rightarrow> 'v payload \<Rightarrow> 'e broker \<Rightarrow>
   ('e encoder option \<times> error option) \<times> 'e broker" where
  "getSaramaEncoder X conf msg b =
     (case messageCodec conf of
        None \<Rightarrow> ((None, None), lgProduceError LogCatKafkaProduce (errCodecNil (Name conf)) b)
      | Some cd \<Rightarrow>
          (let (s, e) =
                 (case msg of
                    StringValue str \<Rightarrow> (Some (StringEncoder str), None)
                  | BytesValue bs \<Rightarrow>
                      (Some (PackageEncoder (newSaramaByteEncoder X (Name conf) bs cd)), None)
                  | Int32Value i \<Rightarrow> (Some (StringEncoder (Sprint_int (sint i))), None)
                  | Int64Value i \<Rightarrow> (Some (StringEncoder (Sprint_int (sint i))), None)
                  | Float32Value f \<Rightarrow> (Some (StringEncoder (Sprint_float32 X f)), None)
                  | Float64Value f \<Rightarrow> (Some (StringEncoder (Sprint_float64 X f)), None)
                  | OtherValue k v \<Rightarrow>
                      if k = StructKind then newSaramaStructEncoder X (Name conf) v cd
                      else (None, Some errMessageType))
           in ((s, e), case e of None \<Rightarrow> b | Some err \<Rightarrow> lgProduceError LogCatKafkaEncode err b)))"

definition produceMessage ::
  "('c, 'v, 'e) encoding \<Rightarrow> ('c, 'd, 's) saramaProducer \<Rightarrow> string \<Rightarrow> string \<Rightarrow> 'v payload \<Rightarrow>
   'e broker \<Rightarrow> error option \<times> 'e broker" where
  "produceMessage X p topic key msg b =
     (case getSaramaEncoder X (lookupConf (producerTopicConf p) topic) msg b of
        ((se, Some e), b1) \<Rightarrow> (Some e, lgProduceError LogCatKafkaProduce e b1)
      | ((se, None), b1) \<Rightarrow>
          (let m = \<lparr>messageTopic = topic, messageKey = StringEncoder key, messageValue = se\<rparr>;
               (e, b2) = (case producer p of
                            SyncProducer \<Rightarrow> SendMessage m b1
                          | AsyncProducer \<Rightarrow> (None, b1\<lparr>input := input b1 @ [m]\<rparr>)
                          | NilProducer \<Rightarrow> (Some errInvalidProducer, b1))
           in (e, case e of None \<Rightarrow> b2 | Some err \<Rightarrow> lgProduceError LogCatKafkaProduce err b2)))"

text \<open>
  What the async producer reports on \<open>Successes()\<close> (topic, partition, offset of the
  message) and on \<open>Errors()\<close> (the topic of the message, the error).
\<close>

datatype response = Succeeded string "32 word" "64 word" | Failed string error

definition responseLog :: "response \<Rightarrow> logEntry" where
  "responseLog r =
     (case r of
        Succeeded topic part offset \<Rightarrow>
          LogInfo LogCatKafkaProduce (infoEvent ''infoProduceSuccess'' topic part offset)
      | Failed topic e \<Rightarrow> LogError LogCatKafkaProduce (errProduceFail topic e))"

text \<open>
  \<open>handleAsyncResponses\<close>, given the responses that arrive. Entering the \<open>select\<close>
  evaluates the channel operands \<open>p.producer.(sarama.AsyncProducer)\<close> first: a
  single-valued type assertion, which panics when the value does not implement the
  interface. With no response left the loop waits in the \<open>select\<close>.
\<close>

fun handleAsyncResponses ::
  "('c, 'd, 's) saramaProducer \<Rightarrow> response list \<Rightarrow> logEntry list \<Rightarrow> unit outcome \<times> logEntry list" where
  "handleAsyncResponses p [] lg =
     (if producer p = AsyncProducer then (StillRunning, lg) else (Panicked, lg))"
| "handleAsyncResponses p (r # rs) lg =
     (if producer p = AsyncProducer then handleAsyncResponses p rs (lg @ [responseLog r])
      else (Panicked, lg))"

text \<open>
  \<open>newSaramaProducer\<close>, given what \<open>sarama.NewSyncProducer\<close> and
  \<open>sarama.NewAsyncProducer\<close> answer for the brokers and the configuration. The result
  is the producer \<open>p\<close>, the error \<open>e\<close>, and whether \<open>go p.handleAsyncResponses()\<close>
  was reached.
\<close>

definition zeroProducer :: "('c, 'd, 's) saramaProducer" where
  "zeroProducer = \<lparr>producer = NilProducer, producerTopicConf = Map.empty, initialized = False\<rparr>"

definition newSaramaProducer ::
  "producerType \<Rightarrow> error option \<Rightarrow> error option \<Rightarrow> (string \<rightharpoonup> ('c, 'd, 's) TopicConfig) \<Rightarrow>
   logEntry list \<Rightarrow> (('c, 'd, 's) saramaProducer \<times> error option \<times> bool) \<times> logEntry list" where
  "newSaramaProducer prodType NewSyncProducer NewAsyncProducer conf lg =
     (let (pv, e) = (case prodType of
                       ProducerTypeSync \<Rightarrow>
                         (case NewSyncProducer of None \<Rightarrow> (SyncProducer, None)
                          | Some err \<Rightarrow> (NilProducer, Some err))
                     | ProducerTypeAsync \<Rightarrow>
                         (case NewAsyncProducer of None \<Rightarrow> (AsyncProducer, None)
                          | Some err \<Rightarrow> (NilProducer, Some err))
                     | OtherProducerType _ \<Rightarrow> (NilProducer, Some errInvalidProducer))
      in case e of
           Some err \<Rightarrow>
             ((zeroProducer\<lparr>producer := pv\<rparr>, Some err, False),
              lg @ [LogError LogCatKafkaProducerInit err])
         | None \<Rightarrow>
             ((\<lparr>producer = pv, producerTopicConf = conf, initialized = True\<rparr>, None, True), lg))"

section \<open>Observations\<close>

text \<open>
  The log entries of the hand-over to the fail handler (which of them is written when
  the send is taken and when it is not, and what has been logged between two states
  of the environment), the messages of a claim up to
  the end of the session's context, the payloads of the case
  \<open>int32, int64, float32, float64\<close> of \<open>getSaramaEncoder\<close>, and the test
  \<open>ConsumeClaim\<close> makes on a topic's configuration.
\<close>

definition isForwardingLog :: "logEntry \<Rightarrow> bool" where
  "isForwardingLog entry =
     (case entry of
        LogInfo cat i \<Rightarrow>
          (case i of infoEvent txt topic part offset \<Rightarrow>
             cat = LogCatKafkaConsume \<and> txt = ''failed message sent to fail handler'')
      | LogError cat e \<Rightarrow>
          (case e of
             errEvent txt topic part offset \<Rightarrow>
               cat = LogCatKafkaConsume \<and> txt = ''failed message not sent to fail handler''
           | _ \<Rightarrow> False))"

definition forwardingLog :: "bool \<Rightarrow> rawMessage \<Rightarrow> logEntry" where
  "forwardingLog taken msg =
     (if taken
      then LogInfo LogCatKafkaConsume
             (infoEvent ''failed message sent to fail handler''
                (Topic msg) (word_of_int (Partition msg)) (Offset msg))
      else LogError LogCatKafkaConsume
             (errEvent ''failed message not sent to fail handler''
                (Topic msg) (word_of_int (Partition msg)) (Offset msg)))"

definition newLogs :: "('c, 's) world \<Rightarrow> ('c, 's) world \<Rightarrow> logEntry list" where
  "newLogs w w' = drop (length (logs w)) (logs w')"

fun claimedBeforeDone :: "claimEvent list \<Rightarrow> rawMessage list" where
  "claimedBeforeDone [] = []"
| "claimedBeforeDone (Done # evs) = []"
| "claimedBeforeDone (Claimed msg # evs) = msg # claimedBeforeDone evs"


definition populated :: "('c, 'd, 's) TopicConfig \<Rightarrow> bool" where
  "populated conf = (Name conf \<noteq> [] \<and> messageCodec conf \<noteq> None)"

definition succeeded :: "'c message \<times> error option \<Rightarrow> bool" where
  "succeeded call = (snd call = None)"

section \<open>Example inputs\<close>

text \<open>
  A topic \<open>orders\<close> with the dead-letter topic \<open>orders-failed\<close>, a partition holding
  one record at offset 42, processors that count their calls in the application
  state, and brokers that acknowledge every commit, refuse the first, or refuse all.
\<close>

definition rejecting :: "unit \<Rightarrow> string message \<Rightarrow> nat \<Rightarrow> error option \<times> nat" where
  "rejecting d m s = (Some (External ''rejected''), Suc s)"

definition accepting :: "unit \<Rightarrow> string message \<Rightarrow> nat \<Rightarrow> error option \<times> nat" where
  "accepting d m s = (None, Suc s)"

definition rejecting42 :: "unit \<Rightarrow> string message \<Rightarrow> nat \<Rightarrow> error option \<times> nat" where
  "rejecting42 d m s =
     (if Offset (received m) = 42 then Some (External ''rejected'') else None, Suc s)"

definition rejectingOnce :: "unit \<Rightarrow> string message \<Rightarrow> nat \<Rightarrow> error option \<times> nat" where
  "rejectingOnce d m s = (if s = 0 then Some (External ''rejected'') else None, Suc s)"

definition ordersConf :: "(string, unit, nat) TopicConfig" where
  "ordersConf = \<lparr>Name = ''orders'', messageCodec = Some ''avro'',
                 MessageProcessor = Some rejecting, FailedProcessingTopic = ''orders-failed''\<rparr>"

definition ordersConf42 :: "(string, unit, nat) TopicConfig" where
  "ordersConf42 = ordersConf\<lparr>MessageProcessor := Some rejecting42\<rparr>"

definition noCodecConf :: "(string, unit, nat) TopicConfig" where
  "noCodecConf = \<lparr>Name = ''orders'', messageCodec = None,
                  MessageProcessor = Some accepting, FailedProcessingTopic = []\<rparr>"

definition ordersOnly ::
  "(string, unit, nat) TopicConfig \<Rightarrow> string \<rightharpoonup> (string, unit, nat) TopicConfig" where
  "ordersOnly conf = [''orders'' \<mapsto> conf]"

definition ordersConsumer :: "(string, unit, nat) kafkagoConsumer" where
  "ordersConsumer = \<lparr>topicNames = [''orders''], topicConfig = ordersOnly ordersConf,
                     procDependencies = ()\<rparr>"

definition noCodecConsumer :: "(string, unit, nat) kafkagoConsumer" where
  "noCodecConsumer = \<lparr>topicNames = [''orders''], topicConfig = ordersOnly noCodecConf,
                      procDependencies = ()\<rparr>"

definition ordersConsumerOnce :: "(string, unit, nat) kafkagoConsumer" where
  "ordersConsumerOnce =
     \<lparr>topicNames = [''orders''],
      topicConfig = ordersOnly (ordersConf\<lparr>MessageProcessor := Some rejectingOnce\<rparr>),
      procDependencies = ()\<rparr>"

definition noTopics :: "string \<rightharpoonup> (string, unit, nat) TopicConfig" where
  "noTopics = Map.empty"

definition noEntryConsumer :: "(string, unit, nat) kafkagoConsumer" where
  "noEntryConsumer = \<lparr>topicNames = [''orders''], topicConfig = noTopics, procDependencies = ()\<rparr>"

definition ordersSession :: "(string, unit, nat) saramaConsumer" where
  "ordersSession = \<lparr>topicConf = ordersOnly ordersConf, sessionDependencies = ()\<rparr>"

definition ordersSession42 :: "(string, unit, nat) saramaConsumer" where
  "ordersSession42 = \<lparr>topicConf = ordersOnly ordersConf42, sessionDependencies = ()\<rparr>"

definition noCodecSession :: "(string, unit, nat) saramaConsumer" where
  "noCodecSession = \<lparr>topicConf = ordersOnly noCodecConf, sessionDependencies = ()\<rparr>"

definition unbuffered :: "string failedMessage chan" where
  "unbuffered = \<lparr>capacity = 0, buffer = [], receivers = 0, handed = []\<rparr>"

definition awaited :: "string failedMessage chan" where
  "awaited = \<lparr>capacity = 0, buffer = [], receivers = 1, handed = []\<rparr>"

definition record42 :: "64 word \<Rightarrow> (bytes \<times> bytes) option" where
  "record42 offset = (if offset = 42 then Some ([], []) else None)"

definition ackAll :: "nat \<Rightarrow> error option" where
  "ackAll n = None"

definition nackFirst :: "nat \<Rightarrow> error option" where
  "nackFirst n = (if n = 0 then Some (External ''not coordinator'') else None)"

definition nackAll :: "nat \<Rightarrow> error option" where
  "nackAll n = Some (External ''not coordinator'')"

definition nothingCommitted :: "string \<times> int \<rightharpoonup> 64 word" where
  "nothingCommitted = Map.empty"

definition world42 :: "(string, nat) world" where
  "world42 = \<lparr>logs = [], app = 0, invocations = [], failMessages = unbuffered,
              records = record42, readPos = 42, readErr = External ''context canceled'',
              setOffsetReply = None, commitReply = ackAll, commitCalls = [],
              committed = nothingCommitted, marked = []\<rparr>"

definition message :: "64 word \<Rightarrow> rawMessage" where
  "message offset = \<lparr>Topic = ''orders'', Partition = 0, Offset = offset, Key = [], Value = []\<rparr>"

definition failed42 :: "string failedMessage" where
  "failed42 = \<lparr>original = \<lparr>received = message 42, codec = Some ''avro''\<rparr>,
               destination = ''orders-failed'', cause = External ''rejected''\<rparr>"

definition claim42 :: "claimEvent list" where
  "claim42 = [Claimed (message 41), Claimed (message 42), Claimed (message 43), Done]"

definition plainEncoding :: "(string, unit, unit) encoding" where
  "plainEncoding = \<lparr>Sprint_float32 = (\<lambda>f. ''float32''), Sprint_float64 = (\<lambda>f. ''float64''),
                    newSaramaByteEncoder = (\<lambda>name bs cd. ()),
                    newSaramaStructEncoder = (\<lambda>name v cd. (Some (PackageEncoder ()), None))\<rparr>"

definition quietBroker :: "unit broker" where
  "quietBroker = \<lparr>produceLogs = [], sendReply = ackAll, sent = [], input = []\<rparr>"

definition syncProducerOf ::
  "(string, unit, nat) TopicConfig \<Rightarrow> (string, unit, nat) saramaProducer" where
  "syncProducerOf conf =
     \<lparr>producer = SyncProducer, producerTopicConf = ordersOnly conf, initialized = True\<rparr>"

definition asyncProducerOf ::
  "(string, unit, nat) TopicConfig \<Rightarrow> (string, unit, nat) saramaProducer" where
  "asyncProducerOf conf =
     \<lparr>producer = AsyncProducer, producerTopicConf = ordersOnly conf, initialized = True\<rparr>"

lemmas example_defs =
  rejecting_def accepting_def rejecting42_def rejectingOnce_def ordersConsumerOnce_def
  noTopics_def noEntryConsumer_def ordersConf_def ordersConf42_def noCodecConf_def
  ordersOnly_def ordersConsumer_def noCodecConsumer_def ordersSession_def ordersSession42_def
  noCodecSession_def unbuffered_def awaited_def record42_def ackAll_def nackFirst_def
  nackAll_def nothingCommitted_def world42_def message_def failed42_def claim42_def plainEncoding_def quietBroker_def
  syncProducerOf_def asyncProducerOf_def

lemmas model_defs =
  newKafkaGoMessage_def newSaramaMessage_def newFailedMessage_def zeroTopicConfig_def
  lookupConf_def trySend_def canProceed_def lgError_def lgInfo_def ReadMessage_def
  SetOffset_def CommitOffsets_def commitOffset_def forwardFailed_def processingFailed_def
  consumeTopic_body_def ConsumeClaim_message_def lgProduceError_def SendMessage_def
  getSaramaEncoder_def produceMessage_def newSaramaProducer_def zeroProducer_def

section \<open>The offset committer\<close>

lemma commitOffset_calls:
  "commitCalls (commitOffset topic part offset w) =
     commitCalls w @ (if commitReply w (length (commitCalls w)) = None
                      then [(topic, part, offset)]
                      else [(topic, part, offset), (topic, part, offset)])"
  by (simp add: commitOffset_def CommitOffsets_def lgError_def Let_def split: option.splits)

lemma commitOffset_frame:
  "app (commitOffset topic part offset w) = app w"
  "invocations (commitOffset topic part offset w) = invocations w"
  "failMessages (commitOffset topic part offset w) = failMessages w"
  "readPos (commitOffset topic part offset w) = readPos w"
  "records (commitOffset topic part offset w) = records w"
  "marked (commitOffset topic part offset w) = marked w"
  "commitReply (commitOffset topic part offset w) = commitReply w"
  by (simp_all add: commitOffset_def CommitOffsets_def lgError_def Let_def split: option.splits)

lemma consumeTopic_body_flow:
  "fst (consumeTopic_body c topic part w) =
     (case records w (readPos w) of
        None \<Rightarrow> Return
      | Some kv \<Rightarrow>
          (case MessageProcessor (lookupConf (topicConfig c) topic) of
             None \<Rightarrow> Panic
           | Some process \<Rightarrow> Continue))"
  by (simp add: consumeTopic_body_def ReadMessage_def Let_def
           split: option.splits prod.splits)

text \<open>
  C3. \<open>commitOffset\<close> calls \<open>CommitOffsets\<close> once. When that call succeeds nothing
  more is attempted and nothing is logged. When it fails, the error is logged and the
  same commit is attempted exactly once more; when the second attempt fails as well
  its error is logged, the group's offsets stay as they were, and \<open>commitOffset\<close>
  still returns (it has no error result). The pass through the loop body that made
  the commits goes on to the next pass whatever the broker replied: that depends
  on the read and on the processor being there only.
\<close>

theorem commitOffset_retries_once:
  "(commitReply w (length (commitCalls w)) = None \<longrightarrow>
      commitCalls (commitOffset topic part offset w) = commitCalls w @ [(topic, part, offset)]
      \<and> logs (commitOffset topic part offset w) = logs w
      \<and> committed (commitOffset topic part offset w) (topic, part) = Some offset)
   \<and> (commitReply w (length (commitCalls w)) = Some e1
        \<and> commitReply w (Suc (length (commitCalls w))) = None \<longrightarrow>
      commitCalls (commitOffset topic part offset w) =
        commitCalls w @ [(topic, part, offset), (topic, part, offset)]
      \<and> logs (commitOffset topic part offset w) =
          logs w @ [LogError LogCatKafkaCommitOffset (errCommit e1)]
      \<and> committed (commitOffset topic part offset w) (topic, part) = Some offset)
   \<and> (commitReply w (length (commitCalls w)) = Some e1
        \<and> commitReply w (Suc (length (commitCalls w))) = Some e2 \<longrightarrow>
      commitCalls (commitOffset topic part offset w) =
        commitCalls w @ [(topic, part, offset), (topic, part, offset)]
      \<and> logs (commitOffset topic part offset w) =
          logs w @ [LogError LogCatKafkaCommitOffset (errCommit e1),
                    LogError LogCatKafkaCommitOffset (errCommit e2)]
      \<and> committed (commitOffset topic part offset w) = committed w)
   \<and> (records w (readPos w) = Some kv
        \<and> MessageProcessor (lookupConf (topicConfig c) topic) = Some process \<longrightarrow>
      fst (consumeTopic_body c topic part w) = Continue)"
proof (intro conjI impI)
  assume "records w (readPos w) = Some kv
        \<and> MessageProcessor (lookupConf (topicConfig c) topic) = Some process"
  then show "fst (consumeTopic_body c topic part w) = Continue"
    by (simp add: consumeTopic_body_flow)
qed (simp_all add: commitOffset_def CommitOffsets_def lgError_def Let_def)

theorem commitOffset_retries_once_witness:
  "commitCalls (commitOffset ''orders'' 0 42 world42) = [(''orders'', 0, 42)]
   \<and> logs (commitOffset ''orders'' 0 42 world42) = []
   \<and> commitCalls (commitOffset ''orders'' 0 42 (world42\<lparr>commitReply := nackFirst\<rparr>)) =
       [(''orders'', 0, 42), (''orders'', 0, 42)]
   \<and> committed (commitOffset ''orders'' 0 42 (world42\<lparr>commitReply := nackFirst\<rparr>))
       (''orders'', 0) = Some 42
   \<and> commitCalls (commitOffset ''orders'' 0 42 (world42\<lparr>commitReply := nackAll\<rparr>)) =
       [(''orders'', 0, 42), (''orders'', 0, 42)]
   \<and> logs (commitOffset ''orders'' 0 42 (world42\<lparr>commitReply := nackAll\<rparr>)) =
       [LogError LogCatKafkaCommitOffset (errCommit (External ''not coordinator'')),
        LogError LogCatKafkaCommitOffset (errCommit (External ''not coordinator''))]
   \<and> committed (commitOffset ''orders'' 0 42 (world42\<lparr>commitReply := nackAll\<rparr>)) =
       nothingCommitted
   \<and> fst (consumeTopic_body ordersConsumer ''orders'' 0 (world42\<lparr>commitReply := nackAll\<rparr>)) =
       Continue"
proof -
  let ?e = "External ''not coordinator''"
  note ack = commitOffset_retries_once [where w = world42 and topic = "''orders''"
      and part = 0 and offset = 42 and ?e1.0 = ?e and ?e2.0 = ?e and kv = "([], [])"
      and c = ordersConsumer and process = rejecting]
  note once = commitOffset_retries_once [where w = "world42\<lparr>commitReply := nackFirst\<rparr>"
      and topic = "''orders''" and part = 0 and offset = 42 and ?e1.0 = ?e and ?e2.0 = ?e
      and kv = "([], [])" and c = ordersConsumer and process = rejecting]
  note twice = commitOffset_retries_once [where w = "world42\<lparr>commitReply := nackAll\<rparr>"
      and topic = "''orders''" and part = 0 and offset = 42 and ?e1.0 = ?e and ?e2.0 = ?e
      and kv = "([], [])" and c = ordersConsumer and process = rejecting]
  show ?thesis
    using ack once twice by (simp add: example_defs lookupConf_def)
qed

section \<open>The partition loop of the generation-based consumer\<close>

text \<open>
  Whatever the processor answers, the last commit a pass through the loop body
  attempts is the commit of the offset of the record it has read.
\<close>

lemma consumeTopic_body_last_commit:
  assumes "records w (readPos w) = Some kv"
    and "MessageProcessor (lookupConf (topicConfig c) topic) = Some process"
  shows "last (commitCalls (snd (consumeTopic_body c topic part w))) = (topic, part, readPos w)"
proof -
  obtain k v where kv: "kv = (k, v)" by (cases kv)
  obtain e a where run: "process (procDependencies c)
      (newKafkaGoMessage \<lparr>Topic = topic, Partition = part, Offset = readPos w, Key = k, Value = v\<rparr>
         (messageCodec (lookupConf (topicConfig c) topic))) (app w) = (e, a)"
    by (cases "process (procDependencies c)
      (newKafkaGoMessage \<lparr>Topic = topic, Partition = part, Offset = readPos w, Key = k, Value = v\<rparr>
         (messageCodec (lookupConf (topicConfig c) topic))) (app w)")
  from assms kv run obtain w3 where
    "snd (consumeTopic_body c topic part w) = commitOffset topic part (readPos w) w3"
    by (simp add: consumeTopic_body_def ReadMessage_def Let_def)
  then show ?thesis
    by (simp add: commitOffset_calls)
qed

text \<open>
  The loop on the partition of the examples, with a processor that rejects its first
  call only: the record at offset 42 is read twice, the commits attempted are those
  of 41, 42 (first pass) and 42 (second pass), and the third read ends the loop.
\<close>

lemma partitionLoop_redelivers:
  "fst (partitionLoop ordersConsumerOnce ''orders'' 0 42 3 world42) = Returned ()
   \<and> map snd (invocations (snd (partitionLoop ordersConsumerOnce ''orders'' 0 42 3 world42))) =
       [Some (External ''rejected''), None]
   \<and> commitCalls (snd (partitionLoop ordersConsumerOnce ''orders'' 0 42 3 world42)) =
       [(''orders'', 0, 41), (''orders'', 0, 42), (''orders'', 0, 42)]
   \<and> readPos (snd (partitionLoop ordersConsumerOnce ''orders'' 0 42 3 world42)) = 43"
  by (simp add: partitionLoop_def numeral_3_eq_3 model_defs example_defs Let_def)

text \<open>
  C1. The topic \<open>orders\<close> has the dead-letter topic \<open>orders-failed\<close>, and the
  processing of the record at offset 42 fails. The pass through the loop body resets
  the reader to offset 42, commits offset 41 and goes on, as the claim says; but it
  then reaches the commit that follows the failure block and commits offset 42 as
  well, so the group's offset for the partition is 42 and not 41 when the pass ends.
\<close>

theorem consumeTopic_commits_failed_offset:
  "fst (consumeTopic_body ordersConsumer ''orders'' 0 world42) = Continue
   \<and> invocations (snd (consumeTopic_body ordersConsumer ''orders'' 0 world42)) =
       [(\<lparr>received = message 42, codec = Some ''avro''\<rparr>, Some (External ''rejected''))]
   \<and> commitCalls (snd (consumeTopic_body ordersConsumer ''orders'' 0 world42)) =
       [(''orders'', 0, 41), (''orders'', 0, 42)]
   \<and> committed (snd (consumeTopic_body ordersConsumer ''orders'' 0 world42)) (''orders'', 0) =
       Some 42
   \<and> readPos (snd (consumeTopic_body ordersConsumer ''orders'' 0 world42)) = 42"
  by (simp add: model_defs example_defs Let_def)

text \<open>
  C8. The entry of \<open>orders\<close> in the registry has a processor but no codec (and so is
  not a populated entry for \<open>ConsumeClaim\<close>, which logs \<open>errTopicConfMissing\<close> and
  leaves the record alone). \<open>consumeTopic\<close> makes no such test: it hands the record
  to the processor and commits its offset, and logs nothing. With no entry at all
  for the topic it calls the nil processor of the zero configuration and panics,
  again without a test or a log entry.
\<close>

theorem consumeTopic_processes_unconfigured_topic:
  "fst (consumeTopic_body noCodecConsumer ''orders'' 0 world42) = Continue
   \<and> invocations (snd (consumeTopic_body noCodecConsumer ''orders'' 0 world42)) =
       [(\<lparr>received = message 42, codec = None\<rparr>, None)]
   \<and> commitCalls (snd (consumeTopic_body noCodecConsumer ''orders'' 0 world42)) =
       [(''orders'', 0, 42)]
   \<and> logs (snd (consumeTopic_body noCodecConsumer ''orders'' 0 world42)) = []
   \<and> fst (consumeTopic_body noEntryConsumer ''orders'' 0 world42) = Panic
   \<and> logs (snd (consumeTopic_body noEntryConsumer ''orders'' 0 world42)) = []
   \<and> invocations (snd (ConsumeClaim_message noCodecSession (message 42) world42)) = []
   \<and> logs (snd (ConsumeClaim_message noCodecSession (message 42) world42)) =
       [LogError LogCatKafkaConsume errTopicConfMissing]"
  by (simp add: model_defs example_defs Let_def)

section \<open>The producer\<close>

text \<open>
  C2. The entry of \<open>orders\<close> has no codec. \<open>getSaramaEncoder\<close> logs \<open>errCodecNil\<close>
  and returns a nil encoder with a nil error, so \<open>produceMessage\<close> goes on: the sync
  producer's \<open>SendMessage\<close> is called, or the message is put on the async producer's
  input, with a nil value, and the caller gets no error.
\<close>

theorem produceMessage_sends_without_codec:
  "fst (produceMessage plainEncoding (syncProducerOf noCodecConf) ''orders'' ''key''
          (StringValue ''hello'') quietBroker) = None
   \<and> sent (snd (produceMessage plainEncoding (syncProducerOf noCodecConf) ''orders'' ''key''
          (StringValue ''hello'') quietBroker)) =
       [\<lparr>messageTopic = ''orders'', messageKey = StringEncoder ''key'', messageValue = None\<rparr>]
   \<and> fst (produceMessage plainEncoding (asyncProducerOf noCodecConf) ''orders'' ''key''
          (StringValue ''hello'') quietBroker) = None
   \<and> input (snd (produceMessage plainEncoding (asyncProducerOf noCodecConf) ''orders'' ''key''
          (StringValue ''hello'') quietBroker)) =
       [\<lparr>messageTopic = ''orders'', messageKey = StringEncoder ''key'', messageValue = None\<rparr>]
   \<and> fst (getSaramaEncoder plainEncoding noCodecConf (StringValue ''hello'') quietBroker) =
       (None, None)"
  by (simp add: model_defs example_defs Let_def)

text \<open>
  The response loop panics at once on anything but an async producer, and on an
  async producer it logs each response and stays in the loop.
\<close>

lemma handleAsyncResponses_not_async:
  "producer p \<noteq> AsyncProducer \<Longrightarrow> handleAsyncResponses p rs lg = (Panicked, lg)"
  by (cases rs) simp_all

lemma handleAsyncResponses_async:
  "producer p = AsyncProducer \<Longrightarrow>
   handleAsyncResponses p rs lg = (StillRunning, lg @ map responseLog rs)"
  by (induction rs arbitrary: lg) simp_all

text \<open>
  C10. When \<open>newSaramaProducer\<close> is called for a synchronous producer and returns no
  error, it has started \<open>handleAsyncResponses\<close> in the background, the producer it
  holds is the sync producer, and \<open>handleAsyncResponses\<close> on it panics on entering its
  \<open>select\<close>, whatever responses there are and before it logs anything.
\<close>

theorem sync_producer_response_loop_panics:
  assumes "newSaramaProducer ProducerTypeSync NewSync NewAsync conf lg = ((p, None, started), lg')"
  shows "started \<and> producer p = SyncProducer
         \<and> handleAsyncResponses p rs lg'' = (Panicked, lg'')"
proof -
  from assms have "started" and "producer p = SyncProducer"
    by (auto simp: newSaramaProducer_def zeroProducer_def split: option.splits)
  then show ?thesis
    by (simp add: handleAsyncResponses_not_async)
qed

theorem sync_producer_response_loop_panics_witness:
  "newSaramaProducer ProducerTypeSync None None (ordersOnly ordersConf) [] =
     ((syncProducerOf ordersConf, None, True), [])
   \<and> handleAsyncResponses (syncProducerOf ordersConf) [Succeeded ''orders'' 0 42] [] =
       (Panicked, [])
   \<and> handleAsyncResponses (syncProducerOf ordersConf) [] [] = (Panicked, [])"
proof -
  have made: "newSaramaProducer ProducerTypeSync None None (ordersOnly ordersConf) [] =
     ((syncProducerOf ordersConf, None, True), [])"
    by (simp add: newSaramaProducer_def syncProducerOf_def)
  from sync_producer_response_loop_panics [OF made] made show ?thesis
    by simp
qed

section \<open>The encoding of payloads\<close>











text \<open>
  C5, as amended. On a topic whose configuration has a codec, \<open>produceMessage\<close> with a
  payload that is none of \<open>string\<close>, \<open>[]byte\<close>, \<open>int32\<close>, \<open>int64\<close>, \<open>float32\<close>,
  \<open>float64\<close> and is not of struct kind returns \<open>errMessageType\<close>, logs it, and
  neither calls \<open>SendMessage\<close> nor puts anything on the async input, whatever the
  producer is.
\<close>

theorem unsupported_payload_rejected:
  assumes "messageCodec (lookupConf (producerTopicConf p) topic) = Some cd"
    and "k \<noteq> StructKind"
  shows "fst (produceMessage X p topic key (OtherValue k v) b) = Some errMessageType
       \<and> sent (snd (produceMessage X p topic key (OtherValue k v) b)) = sent b
       \<and> input (snd (produceMessage X p topic key (OtherValue k v) b)) = input b
       \<and> produceLogs (snd (produceMessage X p topic key (OtherValue k v) b)) =
           produceLogs b @ [LogError LogCatKafkaEncode errMessageType,
                            LogError LogCatKafkaProduce errMessageType]"
  using assms by (simp add: produceMessage_def getSaramaEncoder_def lgProduceError_def)

theorem unsupported_payload_rejected_witness:
  "fst (produceMessage plainEncoding (syncProducerOf ordersConf) ''orders'' ''key''
          (OtherValue FuncKind ()) quietBroker) = Some errMessageType
   \<and> sent (snd (produceMessage plainEncoding (syncProducerOf ordersConf) ''orders'' ''key''
          (OtherValue FuncKind ()) quietBroker)) = []
   \<and> fst (produceMessage plainEncoding (asyncProducerOf ordersConf) ''orders'' ''key''
          (OtherValue FuncKind ()) quietBroker) = Some errMessageType
   \<and> input (snd (produceMessage plainEncoding (asyncProducerOf ordersConf) ''orders'' ''key''
          (OtherValue FuncKind ()) quietBroker)) = []"
proof -
  have s: "messageCodec (lookupConf (producerTopicConf (syncProducerOf ordersConf)) ''orders'') =
             Some ''avro''"
    by (simp add: syncProducerOf_def ordersOnly_def ordersConf_def lookupConf_def)
  have a: "messageCodec (lookupConf (producerTopicConf (asyncProducerOf ordersConf)) ''orders'') =
             Some ''avro''"
    by (simp add: asyncProducerOf_def ordersOnly_def ordersConf_def lookupConf_def)
  have k: "FuncKind \<noteq> StructKind" by simp
  from unsupported_payload_rejected [OF s k, where X = plainEncoding and key = "''key''"
         and v = "()" and b = quietBroker]
       unsupported_payload_rejected [OF a k, where X = plainEncoding and key = "''key''"
         and v = "()" and b = quietBroker]
  show ?thesis by (simp add: quietBroker_def)
qed

text \<open>
  C5 as stated fails where the topic's configuration has no codec: a function value
  as payload does not get \<open>errMessageType\<close> there, and the sync producer's
  \<open>SendMessage\<close> is called.
\<close>

theorem unsupported_payload_without_codec:
  "fst (produceMessage plainEncoding (syncProducerOf noCodecConf) ''orders'' ''key''
          (OtherValue FuncKind ()) quietBroker) \<noteq> Some errMessageType
   \<and> sent (snd (produceMessage plainEncoding (syncProducerOf noCodecConf) ''orders'' ''key''
          (OtherValue FuncKind ()) quietBroker)) \<noteq> []"
  by (simp add: model_defs example_defs Let_def)

section \<open>The claim loop of the session-based consumer\<close>

text \<open>
  The hand-over to the fail handler touches the channel and the log only. One
  message of the claim leads to at most one processor call, made exactly when the
  topic's entry is populated, and the message is marked exactly when that call
  returned no error.
\<close>

lemma forwardFailed_frame:
  "invocations (forwardFailed msg fm w) = invocations w"
  "marked (forwardFailed msg fm w) = marked w"
  "app (forwardFailed msg fm w) = app w"
  "commitCalls (forwardFailed msg fm w) = commitCalls w"
  by (simp_all add: forwardFailed_def lgInfo_def lgError_def split: prod.splits bool.splits)

lemma ConsumeClaim_message_effect:
  assumes "fst (ConsumeClaim_message c msg w) \<noteq> Panic"
  shows "\<exists>calls.
           invocations (snd (ConsumeClaim_message c msg w)) = invocations w @ calls
         \<and> marked (snd (ConsumeClaim_message c msg w)) =
             marked w @ map (received \<circ> fst) (filter succeeded calls)
         \<and> map (received \<circ> fst) calls =
             (if populated (lookupConf (topicConf c) (Topic msg)) then [msg] else [])"
proof (cases "populated (lookupConf (topicConf c) (Topic msg))")
  case False
  then show ?thesis
    by (auto simp: ConsumeClaim_message_def populated_def lgError_def)
next
  case True
  with assms obtain process where
    p: "MessageProcessor (lookupConf (topicConf c) (Topic msg)) = Some process"
    by (auto simp: ConsumeClaim_message_def populated_def Let_def split: option.splits)
  let ?m = "newSaramaMessage msg (messageCodec (lookupConf (topicConf c) (Topic msg)))"
  obtain e a where r: "process (sessionDependencies c) ?m (app w) = (e, a)"
    by (cases "process (sessionDependencies c) ?m (app w)")
  from True p r have "invocations (snd (ConsumeClaim_message c msg w)) = invocations w @ [(?m, e)]"
    by (auto simp: ConsumeClaim_message_def populated_def Let_def lgInfo_def lgError_def
          forwardFailed_frame split: option.splits)
  moreover from True p r have "marked (snd (ConsumeClaim_message c msg w)) =
      marked w @ map (received \<circ> fst) (filter succeeded [(?m, e)])"
    by (auto simp: ConsumeClaim_message_def populated_def Let_def lgInfo_def lgError_def
          forwardFailed_frame succeeded_def newSaramaMessage_def split: option.splits)
  moreover from True have "map (received \<circ> fst) [(?m, e)] =
      (if populated (lookupConf (topicConf c) (Topic msg)) then [msg] else [])"
    by (simp add: newSaramaMessage_def)
  ultimately show ?thesis by blast
qed

lemma ConsumeClaim_message_flow:
  "fst (ConsumeClaim_message c msg w) \<noteq> Return"
  by (auto simp: ConsumeClaim_message_def Let_def split: option.splits prod.splits)

text \<open>
  C7. Run \<open>ConsumeClaim\<close> on the messages and the end of context that its \<open>select\<close>
  receives, and let it not panic (no populated entry lacks its processor). The
  processor calls it makes are, in order, the calls for the messages of populated
  topics that arrive before the context ends: a failed call does not end the loop.
  The messages it marks are, in order, exactly the messages of the calls that
  returned no error. It returns (nil) if and only if the context ends, and is in
  the loop otherwise.
\<close>

theorem ConsumeClaim_marks_successes:
  assumes "fst (ConsumeClaim c evs w) \<noteq> Panicked"
  shows "\<exists>calls.
           invocations (snd (ConsumeClaim c evs w)) = invocations w @ calls
         \<and> marked (snd (ConsumeClaim c evs w)) =
             marked w @ map (received \<circ> fst) (filter succeeded calls)
         \<and> map (received \<circ> fst) calls =
             filter (\<lambda>msg. populated (lookupConf (topicConf c) (Topic msg)))
               (claimedBeforeDone evs)
         \<and> fst (ConsumeClaim c evs w) =
             (if Done \<in> set evs then Returned None else StillRunning)"
  using assms
proof (induction evs arbitrary: w)
  case Nil
  then show ?case by simp
next
  case (Cons ev evs)
  show ?case
  proof (cases ev)
    case Done
    then show ?thesis by simp
  next
    case (Claimed msg)
    let ?w1 = "snd (ConsumeClaim_message c msg w)"
    from Cons.prems Claimed have np: "fst (ConsumeClaim_message c msg w) \<noteq> Panic"
      by (auto split: prod.splits flow.splits)
    then have step: "ConsumeClaim c (ev # evs) w = ConsumeClaim c evs ?w1"
      using Claimed by (auto split: prod.splits flow.splits)
    with Cons.prems have "fst (ConsumeClaim c evs ?w1) \<noteq> Panicked" by simp
    from Cons.IH [OF this] obtain rest where
      rest: "invocations (snd (ConsumeClaim c evs ?w1)) = invocations ?w1 @ rest"
        "marked (snd (ConsumeClaim c evs ?w1)) =
           marked ?w1 @ map (received \<circ> fst) (filter succeeded rest)"
        "map (received \<circ> fst) rest =
           filter (\<lambda>msg. populated (lookupConf (topicConf c) (Topic msg))) (claimedBeforeDone evs)"
        "fst (ConsumeClaim c evs ?w1) = (if Done \<in> set evs then Returned None else StillRunning)"
      by blast
    from ConsumeClaim_message_effect [OF np] obtain calls where
      calls: "invocations ?w1 = invocations w @ calls"
        "marked ?w1 = marked w @ map (received \<circ> fst) (filter succeeded calls)"
        "map (received \<circ> fst) calls =
           (if populated (lookupConf (topicConf c) (Topic msg)) then [msg] else [])"
      by blast
    have "invocations (snd (ConsumeClaim c (ev # evs) w)) = invocations w @ (calls @ rest)"
      using step rest(1) calls(1) by simp
    moreover have "marked (snd (ConsumeClaim c (ev # evs) w)) =
        marked w @ map (received \<circ> fst) (filter succeeded (calls @ rest))"
      using step rest(2) calls(2) by simp
    moreover have "map (received \<circ> fst) (calls @ rest) =
        filter (\<lambda>msg. populated (lookupConf (topicConf c) (Topic msg)))
          (claimedBeforeDone (ev # evs))"
      using rest(3) calls(3) Claimed by simp
    moreover have "fst (ConsumeClaim c (ev # evs) w) =
        (if Done \<in> set (ev # evs) then Returned None else StillRunning)"
      using step rest(4) Claimed by simp
    ultimately show ?thesis by blast
  qed
qed


theorem ConsumeClaim_marks_successes_witness:
  "fst (ConsumeClaim ordersSession42 claim42 world42) = Returned None
   \<and> map (received \<circ> fst) (invocations (snd (ConsumeClaim ordersSession42 claim42 world42))) =
       [message 41, message 42, message 43]
   \<and> map snd (invocations (snd (ConsumeClaim ordersSession42 claim42 world42))) =
       [None, Some (External ''rejected''), None]
   \<and> marked (snd (ConsumeClaim ordersSession42 claim42 world42)) = [message 41, message 43]"
proof -
  have r: "fst (ConsumeClaim ordersSession42 claim42 world42) = Returned None"
    by (simp add: model_defs example_defs Let_def)
  have i: "invocations (snd (ConsumeClaim ordersSession42 claim42 world42)) =
      [(\<lparr>received = message 41, codec = Some ''avro''\<rparr>, None),
       (\<lparr>received = message 42, codec = Some ''avro''\<rparr>, Some (External ''rejected'')),
       (\<lparr>received = message 43, codec = Some ''avro''\<rparr>, None)]"
    by (simp add: model_defs example_defs Let_def)
  have "fst (ConsumeClaim ordersSession42 claim42 world42) \<noteq> Panicked"
    using r by simp
  from ConsumeClaim_marks_successes [OF this] obtain calls where
    "invocations (snd (ConsumeClaim ordersSession42 claim42 world42)) =
       invocations world42 @ calls"
    "marked (snd (ConsumeClaim ordersSession42 claim42 world42)) =
       marked world42 @ map (received \<circ> fst) (filter succeeded calls)"
    by blast
  then have "marked (snd (ConsumeClaim ordersSession42 claim42 world42)) =
      map (received \<circ> fst)
        (filter succeeded (invocations (snd (ConsumeClaim ordersSession42 claim42 world42))))"
    by (simp add: world42_def)
  with r i show ?thesis
    by (simp add: succeeded_def)
qed

section \<open>The hand-over of failed messages\<close>

text \<open>
  The non-blocking send is taken exactly when the channel can take the value at once;
  the channel then holds the value once more, and is as it was otherwise. The
  hand-over writes one log entry, which tells the two cases apart; commits and the
  reset of the reader write none of that kind.
\<close>

lemma trySend_taken: "fst (trySend ch x) = canProceed ch"
  by (simp add: trySend_def canProceed_def)

lemma trySend_accepted:
  "canProceed ch \<Longrightarrow> length (accepted (snd (trySend ch x))) = Suc (length (accepted ch))"
  "canProceed ch \<Longrightarrow>
     count_list (accepted (snd (trySend ch x))) x = Suc (count_list (accepted ch) x)"
  by (auto simp: trySend_def canProceed_def accepted_def)

lemma trySend_refused: "\<not> canProceed ch \<Longrightarrow> snd (trySend ch x) = ch"
  by (simp add: trySend_def canProceed_def)

lemma forwardFailed_channel:
  "failMessages (forwardFailed msg fm w) = snd (trySend (failMessages w) fm)"
  by (cases "canProceed (failMessages w)")
     (auto simp: forwardFailed_def lgInfo_def lgError_def trySend_def canProceed_def)

lemma forwardFailed_logs:
  "logs (forwardFailed msg fm w) = logs w @ [forwardingLog (canProceed (failMessages w)) msg]"
  by (auto simp: forwardFailed_def lgInfo_def lgError_def trySend_def canProceed_def
        forwardingLog_def)

lemma isForwardingLog_forwardingLog: "isForwardingLog (forwardingLog taken msg)"
  by (simp add: isForwardingLog_def forwardingLog_def)

lemma commitOffset_logs:
  "\<exists>xs. logs (commitOffset topic part offset w) = logs w @ xs \<and> filter isForwardingLog xs = []"
  by (auto simp: commitOffset_def CommitOffsets_def lgError_def Let_def isForwardingLog_def
        split: option.splits)

lemma processingFailed_forwards:
  assumes "FailedProcessingTopic conf \<noteq> []"
  shows "failMessages (processingFailed conf topic part msg m e w) =
           snd (trySend (failMessages w) (newFailedMessage m (FailedProcessingTopic conf) e))"
    and "\<exists>xs. logs (processingFailed conf topic part msg m e w) =
           logs w @ forwardingLog (canProceed (failMessages w)) msg # xs
           \<and> filter isForwardingLog xs = []"
proof -
  let ?fm = "newFailedMessage m (FailedProcessingTopic conf) e"
  let ?w1 = "forwardFailed msg ?fm w"
  obtain w2 ys where w2: "processingFailed conf topic part msg m e w =
        commitOffset topic part (Offset msg - 1) w2"
      and ch: "failMessages w2 = failMessages ?w1"
      and lg: "logs w2 = logs ?w1 @ ys" "filter isForwardingLog ys = []"
    using assms
    by (cases "setOffsetReply ?w1")
       (auto simp: processingFailed_def SetOffset_def lgError_def Let_def isForwardingLog_def)
  from w2 ch show "failMessages (processingFailed conf topic part msg m e w) =
      snd (trySend (failMessages w) ?fm)"
    by (simp add: commitOffset_frame forwardFailed_channel)
  from commitOffset_logs [of topic part "Offset msg - 1" w2] obtain zs where
    "logs (commitOffset topic part (Offset msg - 1) w2) = logs w2 @ zs"
    "filter isForwardingLog zs = []"
    by blast
  with w2 lg have "logs (processingFailed conf topic part msg m e w) =
      logs w @ forwardingLog (canProceed (failMessages w)) msg # (ys @ zs)
      \<and> filter isForwardingLog (ys @ zs) = []"
    by (simp add: forwardFailed_logs)
  then show "\<exists>xs. logs (processingFailed conf topic part msg m e w) =
           logs w @ forwardingLog (canProceed (failMessages w)) msg # xs
           \<and> filter isForwardingLog xs = []"
    by blast
qed

lemma consumeTopic_body_forwards:
  assumes "records w (readPos w) = Some (k, v)"
    and "conf = lookupConf (topicConfig c) topic"
    and "MessageProcessor conf = Some process"
    and "msg = \<lparr>Topic = topic, Partition = part, Offset = readPos w, Key = k, Value = v\<rparr>"
    and "m = newKafkaGoMessage msg (messageCodec conf)"
    and "process (procDependencies c) m (app w) = (Some err, a)"
    and "FailedProcessingTopic conf \<noteq> []"
  shows "fst (consumeTopic_body c topic part w) = Continue"
    and "failMessages (snd (consumeTopic_body c topic part w)) =
           snd (trySend (failMessages w) (newFailedMessage m (FailedProcessingTopic conf) err))"
    and "filter isForwardingLog (newLogs w (snd (consumeTopic_body c topic part w))) =
           [forwardingLog (canProceed (failMessages w)) msg]"
proof -
  let ?w2 = "w\<lparr>readPos := readPos w + 1, app := a, invocations := invocations w @ [(m, Some err)]\<rparr>"
  let ?w3 = "processingFailed conf topic part msg m err ?w2"
  from assms have body: "consumeTopic_body c topic part w =
      (Continue, commitOffset topic part (Offset msg) ?w3)"
    by (simp add: consumeTopic_body_def ReadMessage_def Let_def)
  then show "fst (consumeTopic_body c topic part w) = Continue" by simp
  from processingFailed_forwards(1) [OF assms(7), of topic part msg m err ?w2] body
  show "failMessages (snd (consumeTopic_body c topic part w)) =
      snd (trySend (failMessages w) (newFailedMessage m (FailedProcessingTopic conf) err))"
    by (simp add: commitOffset_frame)
  from processingFailed_forwards(2) [OF assms(7), of topic part msg m err ?w2] obtain xs where
    xs: "logs ?w3 = logs w @ forwardingLog (canProceed (failMessages w)) msg # xs"
        "filter isForwardingLog xs = []"
    by auto
  from commitOffset_logs [of topic part "Offset msg" ?w3] obtain ys where
    ys: "logs (commitOffset topic part (Offset msg) ?w3) = logs ?w3 @ ys"
        "filter isForwardingLog ys = []"
    by blast
  from body xs ys show "filter isForwardingLog (newLogs w (snd (consumeTopic_body c topic part w))) =
      [forwardingLog (canProceed (failMessages w)) msg]"
    by (simp add: newLogs_def isForwardingLog_forwardingLog)
qed

lemma ConsumeClaim_message_forwards:
  assumes "conf = lookupConf (topicConf c) (Topic msg)"
    and "populated conf"
    and "MessageProcessor conf = Some process"
    and "m = newSaramaMessage msg (messageCodec conf)"
    and "process (sessionDependencies c) m (app w) = (Some err, a)"
    and "FailedProcessingTopic conf \<noteq> []"
  shows "fst (ConsumeClaim_message c msg w) = Continue"
    and "failMessages (snd (ConsumeClaim_message c msg w)) =
           snd (trySend (failMessages w) (newFailedMessage m (FailedProcessingTopic conf) err))"
    and "filter isForwardingLog (newLogs w (snd (ConsumeClaim_message c msg w))) =
           [forwardingLog (canProceed (failMessages w)) msg]"
    and "marked (snd (ConsumeClaim_message c msg w)) = marked w"
proof -
  let ?w1 = "lgInfo LogCatKafkaConsume
       (infoEvent ''message claimed'' (Topic msg) (word_of_int (Partition msg)) (Offset msg)) w"
  let ?w3 = "lgError LogCatKafkaProcessMessage err
       (?w1\<lparr>app := a, invocations := invocations ?w1 @ [(m, Some err)]\<rparr>)"
  let ?fm = "newFailedMessage m (FailedProcessingTopic conf) err"
  from assms have body: "ConsumeClaim_message c msg w = (Continue, forwardFailed msg ?fm ?w3)"
    by (auto simp: ConsumeClaim_message_def populated_def Let_def lgInfo_def)
  then show "fst (ConsumeClaim_message c msg w) = Continue" by simp
  from body show "failMessages (snd (ConsumeClaim_message c msg w)) =
      snd (trySend (failMessages w) ?fm)"
    by (simp add: forwardFailed_channel lgInfo_def lgError_def)
  from body show "filter isForwardingLog (newLogs w (snd (ConsumeClaim_message c msg w))) =
      [forwardingLog (canProceed (failMessages w)) msg]"
    by (simp add: newLogs_def forwardFailed_logs lgInfo_def lgError_def
          isForwardingLog_forwardingLog)
       (simp add: isForwardingLog_def split: error.splits)
  from body show "marked (snd (ConsumeClaim_message c msg w)) = marked w"
    by (simp add: forwardFailed_frame lgInfo_def lgError_def)
qed

text \<open>
  C6. A record is read (or a message claimed), its topic has a failed-processing topic,
  and the processor returns an error. In \<open>consumeTopic\<close> and in \<open>ConsumeClaim\<close> alike,
  the pass through the loop body then makes one non-blocking send of the failed
  message on \<open>failMessages\<close> and nothing else on that channel, writes exactly one
  hand-over entry to the log (the information that the message was sent when the
  send was taken, the error that it was not sent otherwise), and goes on with the
  loop. A send that is taken puts the message on the channel exactly once; a send
  that cannot proceed at once leaves the channel as it was. No step of this waits.
\<close>

theorem failed_message_forwarded_once:
  "(records w (readPos w) = Some (k, v)
      \<and> conf = lookupConf (topicConfig c) topic
      \<and> MessageProcessor conf = Some process
      \<and> msg = \<lparr>Topic = topic, Partition = part, Offset = readPos w, Key = k, Value = v\<rparr>
      \<and> m = newKafkaGoMessage msg (messageCodec conf)
      \<and> process (procDependencies c) m (app w) = (Some err, a)
      \<and> FailedProcessingTopic conf \<noteq> [] \<longrightarrow>
    fst (consumeTopic_body c topic part w) = Continue
    \<and> failMessages (snd (consumeTopic_body c topic part w)) =
        snd (trySend (failMessages w) (newFailedMessage m (FailedProcessingTopic conf) err))
    \<and> filter isForwardingLog (newLogs w (snd (consumeTopic_body c topic part w))) =
        [forwardingLog (canProceed (failMessages w)) msg])
   \<and> (sconf = lookupConf (topicConf sc) (Topic smsg)
      \<and> populated sconf
      \<and> MessageProcessor sconf = Some sprocess
      \<and> sm = newSaramaMessage smsg (messageCodec sconf)
      \<and> sprocess (sessionDependencies sc) sm (app w) = (Some serr, sa)
      \<and> FailedProcessingTopic sconf \<noteq> [] \<longrightarrow>
    fst (ConsumeClaim_message sc smsg w) = Continue
    \<and> failMessages (snd (ConsumeClaim_message sc smsg w)) =
        snd (trySend (failMessages w) (newFailedMessage sm (FailedProcessingTopic sconf) serr))
    \<and> filter isForwardingLog (newLogs w (snd (ConsumeClaim_message sc smsg w))) =
        [forwardingLog (canProceed (failMessages w)) smsg])
   \<and> (canProceed ch \<longrightarrow>
    fst (trySend ch fm)
    \<and> length (accepted (snd (trySend ch fm))) = Suc (length (accepted ch))
    \<and> count_list (accepted (snd (trySend ch fm))) fm = Suc (count_list (accepted ch) fm))
   \<and> (\<not> canProceed ch \<longrightarrow> trySend ch fm = (False, ch))"
proof (intro conjI impI)
  assume h: "records w (readPos w) = Some (k, v)
      \<and> conf = lookupConf (topicConfig c) topic
      \<and> MessageProcessor conf = Some process
      \<and> msg = \<lparr>Topic = topic, Partition = part, Offset = readPos w, Key = k, Value = v\<rparr>
      \<and> m = newKafkaGoMessage msg (messageCodec conf)
      \<and> process (procDependencies c) m (app w) = (Some err, a)
      \<and> FailedProcessingTopic conf \<noteq> []"
  then have hs: "records w (readPos w) = Some (k, v)"
      "conf = lookupConf (topicConfig c) topic"
      "MessageProcessor conf = Some process"
      "msg = \<lparr>Topic = topic, Partition = part, Offset = readPos w, Key = k, Value = v\<rparr>"
      "m = newKafkaGoMessage msg (messageCodec conf)"
      "process (procDependencies c) m (app w) = (Some err, a)"
      "FailedProcessingTopic conf \<noteq> []"
    by blast+
  show "fst (consumeTopic_body c topic part w) = Continue"
    by (rule consumeTopic_body_forwards(1) [OF hs])
  show "failMessages (snd (consumeTopic_body c topic part w)) =
      snd (trySend (failMessages w) (newFailedMessage m (FailedProcessingTopic conf) err))"
    by (rule consumeTopic_body_forwards(2) [OF hs])
  show "filter isForwardingLog (newLogs w (snd (consumeTopic_body c topic part w))) =
      [forwardingLog (canProceed (failMessages w)) msg]"
    by (rule consumeTopic_body_forwards(3) [OF hs])
next
  assume h: "sconf = lookupConf (topicConf sc) (Topic smsg)
      \<and> populated sconf
      \<and> MessageProcessor sconf = Some sprocess
      \<and> sm = newSaramaMessage smsg (messageCodec sconf)
      \<and> sprocess (sessionDependencies sc) sm (app w) = (Some serr, sa)
      \<and> FailedProcessingTopic sconf \<noteq> []"
  then have hs: "sconf = lookupConf (topicConf sc) (Topic smsg)"
      "populated sconf"
      "MessageProcessor sconf = Some sprocess"
      "sm = newSaramaMessage smsg (messageCodec sconf)"
      "sprocess (sessionDependencies sc) sm (app w) = (Some serr, sa)"
      "FailedProcessingTopic sconf \<noteq> []"
    by blast+
  show "fst (ConsumeClaim_message sc smsg w) = Continue"
    by (rule ConsumeClaim_message_forwards(1) [OF hs])
  show "failMessages (snd (ConsumeClaim_message sc smsg w)) =
      snd (trySend (failMessages w) (newFailedMessage sm (FailedProcessingTopic sconf) serr))"
    by (rule ConsumeClaim_message_forwards(2) [OF hs])
  show "filter isForwardingLog (newLogs w (snd (ConsumeClaim_message sc smsg w))) =
      [forwardingLog (canProceed (failMessages w)) smsg]"
    by (rule ConsumeClaim_message_forwards(3) [OF hs])
next
  assume "canProceed ch"
  then show "fst (trySend ch fm)"
    and "length (accepted (snd (trySend ch fm))) = Suc (length (accepted ch))"
    and "count_list (accepted (snd (trySend ch fm))) fm = Suc (count_list (accepted ch) fm)"
    by (simp_all add: trySend_taken trySend_accepted)
next
  assume "\<not> canProceed ch"
  then show "trySend ch fm = (False, ch)"
    by (simp add: trySend_def canProceed_def)
qed

theorem failed_message_forwarded_once_witness:
  "fst (consumeTopic_body ordersConsumer ''orders'' 0 world42) = Continue
   \<and> failMessages (snd (consumeTopic_body ordersConsumer ''orders'' 0 world42)) = unbuffered
   \<and> filter isForwardingLog
        (newLogs world42 (snd (consumeTopic_body ordersConsumer ''orders'' 0 world42))) =
       [LogError LogCatKafkaConsume
          (errEvent ''failed message not sent to fail handler'' ''orders'' 0 42)]
   \<and> fst (ConsumeClaim_message ordersSession (message 42) (world42\<lparr>failMessages := awaited\<rparr>)) =
       Continue
   \<and> failMessages
        (snd (ConsumeClaim_message ordersSession (message 42) (world42\<lparr>failMessages := awaited\<rparr>))) =
       awaited\<lparr>receivers := 0, handed := [failed42]\<rparr>
   \<and> filter isForwardingLog
        (newLogs (world42\<lparr>failMessages := awaited\<rparr>)
           (snd (ConsumeClaim_message ordersSession (message 42)
                   (world42\<lparr>failMessages := awaited\<rparr>)))) =
       [LogInfo LogCatKafkaConsume
          (infoEvent ''failed message sent to fail handler'' ''orders'' 0 42)]
   \<and> count_list (accepted (snd (trySend awaited failed42))) failed42 = 1
   \<and> trySend unbuffered failed42 = (False, unbuffered)"
proof -
  note kafkago = failed_message_forwarded_once [where w = world42 and k = "[]" and v = "[]"
      and conf = ordersConf and c = ordersConsumer and topic = "''orders''" and part = 0
      and process = rejecting and msg = "message 42"
      and m = "\<lparr>received = message 42, codec = Some ''avro''\<rparr>"
      and err = "External ''rejected''" and a = 1
      and sconf = ordersConf and sc = ordersSession and smsg = "message 42"
      and sprocess = rejecting and sm = "\<lparr>received = message 42, codec = Some ''avro''\<rparr>"
      and serr = "External ''rejected''" and sa = 1
      and ch = unbuffered and fm = failed42]
  note sarama = failed_message_forwarded_once [where w = "world42\<lparr>failMessages := awaited\<rparr>"
      and k = "[]" and v = "[]"
      and conf = ordersConf and c = ordersConsumer and topic = "''orders''" and part = 0
      and process = rejecting and msg = "message 42"
      and m = "\<lparr>received = message 42, codec = Some ''avro''\<rparr>"
      and err = "External ''rejected''" and a = 1
      and sconf = ordersConf and sc = ordersSession and smsg = "message 42"
      and sprocess = rejecting and sm = "\<lparr>received = message 42, codec = Some ''avro''\<rparr>"
      and serr = "External ''rejected''" and sa = 1
      and ch = awaited and fm = failed42]
  show ?thesis
    using kafkago sarama
    by (simp add: example_defs lookupConf_def newKafkaGoMessage_def newSaramaMessage_def
          newFailedMessage_def populated_def canProceed_def trySend_def forwardingLog_def
          accepted_def)
qed

end
